theory Spec2Isabelle
  imports Main
begin

section \<open>Python values\<close>

text \<open>
  The program of \<^verbatim>\<open>main.py\<close> navigates dynamically typed values: the parsed body of a
  completion response, the provider's \<^verbatim>\<open>info\<close> mapping, the arguments of a tool call.
  They are the values of Python's \<^verbatim>\<open>json\<close> module: \<^verbatim>\<open>None\<close>, booleans, integers, floats,
  strings, lists and dictionaries with string keys. A dictionary is an association list
  in insertion order, read with \<open>map_of\<close>. Of a float only its truth value is ever used
  by the program, so a float is a mantissa and a binary exponent, or one of the special
  values that Python's parser also accepts.
\<close>

datatype pyfloat = FloatFinite int int | FloatInf bool | FloatNaN

datatype json =
    JNull
  | JBool bool
  | JInt int
  | JFloat pyfloat
  | JStr string
  | JArr "json list"
  | JObj "(string \<times> json) list"

text \<open>Python's truth value, as tested by \<^verbatim>\<open>if x\<close>, \<^verbatim>\<open>not x\<close> and \<^verbatim>\<open>x and y\<close>.\<close>

fun truthy :: "json \<Rightarrow> bool" where
  "truthy JNull = False"
| "truthy (JBool b) = b"
| "truthy (JInt i) = (i \<noteq> 0)"
| "truthy (JFloat f) = (case f of FloatFinite m e \<Rightarrow> m \<noteq> 0 | FloatInf s \<Rightarrow> True | FloatNaN \<Rightarrow> True)"
| "truthy (JStr s) = (s \<noteq> [])"
| "truthy (JArr xs) = (xs \<noteq> [])"
| "truthy (JObj kvs) = (kvs \<noteq> [])"

fun is_str :: "json \<Rightarrow> bool" where
  "is_str (JStr s) = True"
| "is_str v = False"

fun type_name :: "json \<Rightarrow> string" where
  "type_name JNull = ''NoneType''"
| "type_name (JBool b) = ''bool''"
| "type_name (JInt i) = ''int''"
| "type_name (JFloat f) = ''float''"
| "type_name (JStr s) = ''str''"
| "type_name (JArr xs) = ''list''"
| "type_name (JObj kvs) = ''dict''"

section \<open>Exceptions\<close>

text \<open>
  An exception is its class and the text \<^verbatim>\<open>str(e)\<close> gives. The handlers of the program
  tell \<^verbatim>\<open>requests.exceptions.RequestException\<close> (with all its subclasses) from every other
  subclass of \<^verbatim>\<open>Exception\<close>; \<open>OtherException\<close> stands for any class of the second kind
  that the program does not raise itself. What is not an \<^verbatim>\<open>Exception\<close> at all
  (\<^verbatim>\<open>KeyboardInterrupt\<close>, \<^verbatim>\<open>SystemExit\<close>) is outside the model.
\<close>

datatype exn_class =
  RequestException | AttributeError | KeyError | TypeError | IndexError | OtherException

datatype pyexn = Exn exn_class string

fun exn_class_of :: "pyexn \<Rightarrow> exn_class" where
  "exn_class_of (Exn c m) = c"

fun exn_str :: "pyexn \<Rightarrow> string" where
  "exn_str (Exn c m) = m"

text \<open>Sequencing of steps that may raise: the first exception ends the evaluation.\<close>

fun bind_exn :: "pyexn + 'a \<Rightarrow> ('a \<Rightarrow> pyexn + 'b) \<Rightarrow> pyexn + 'b" where
  "bind_exn (Inl e) f = Inl e"
| "bind_exn (Inr x) f = f x"

definition no_attribute :: "json \<Rightarrow> string \<Rightarrow> pyexn" where
  "no_attribute v a =
     Exn AttributeError
       ([CHR 0x27] @ type_name v @ [CHR 0x27] @ '' object has no attribute '' @ [CHR 0x27] @ a @ [CHR 0x27])"

definition not_subscriptable :: "json \<Rightarrow> pyexn" where
  "not_subscriptable v = Exn TypeError ([CHR 0x27] @ type_name v @ [CHR 0x27] @ '' object is not subscriptable'')"

section \<open>Reading values the way the program does\<close>

text \<open>\<^verbatim>\<open>v.get(k)\<close>: only a dictionary has the method; a missing key gives \<^verbatim>\<open>None\<close>.\<close>

fun py_get :: "json \<Rightarrow> string \<Rightarrow> pyexn + json" where
  "py_get (JObj kvs) k = Inr (case map_of kvs k of None \<Rightarrow> JNull | Some v \<Rightarrow> v)"
| "py_get v k = Inl (no_attribute v ''get'')"

text \<open>\<^verbatim>\<open>v.get(k, d)\<close>: the default \<open>d\<close> is used only when the key is absent.\<close>

fun py_get_default :: "json \<Rightarrow> string \<Rightarrow> json \<Rightarrow> pyexn + json" where
  "py_get_default (JObj kvs) k d = Inr (case map_of kvs k of None \<Rightarrow> d | Some v \<Rightarrow> v)"
| "py_get_default v k d = Inl (no_attribute v ''get'')"

text \<open>\<^verbatim>\<open>v[k]\<close> with a string key.\<close>

fun py_item :: "json \<Rightarrow> string \<Rightarrow> pyexn + json" where
  "py_item (JObj kvs) k =
     (case map_of kvs k of None \<Rightarrow> Inl (Exn KeyError ([CHR 0x27] @ k @ [CHR 0x27])) | Some v \<Rightarrow> Inr v)"
| "py_item (JArr xs) k = Inl (Exn TypeError ''list indices must be integers or slices, not str'')"
| "py_item (JStr s) k = Inl (Exn TypeError (''string indices must be integers, not '' @ [CHR 0x27] @ ''str'' @ [CHR 0x27]))"
| "py_item v k = Inl (not_subscriptable v)"

text \<open>\<^verbatim>\<open>v[0]\<close>. A dictionary of this model has string keys only, so \<^verbatim>\<open>0\<close> is never a key.\<close>

fun py_index0 :: "json \<Rightarrow> pyexn + json" where
  "py_index0 (JArr xs) =
     (case xs of [] \<Rightarrow> Inl (Exn IndexError ''list index out of range'') | x # rest \<Rightarrow> Inr x)"
| "py_index0 (JStr s) =
     (case s of [] \<Rightarrow> Inl (Exn IndexError ''string index out of range'') | c # rest \<Rightarrow> Inr (JStr [c]))"
| "py_index0 (JObj kvs) = Inl (Exn KeyError ''0'')"
| "py_index0 v = Inl (not_subscriptable v)"

text \<open>
  \<^verbatim>\<open>str.upper()\<close> restricted to ASCII text: the letters a to z are mapped, every other
  ASCII character is left as it is. It serves the example worlds only; the program's
  \<^verbatim>\<open>str.upper()\<close>, with Python's case mapping of every code point, is part of the world
  below.
\<close>

definition upper_char :: "char \<Rightarrow> char" where
  "upper_char c =
     (case map_of (zip ''abcdefghijklmnopqrstuvwxyz'' ''ABCDEFGHIJKLMNOPQRSTUVWXYZ'') c of
        None \<Rightarrow> c | Some u \<Rightarrow> u)"

definition ascii_upper :: "string \<Rightarrow> string" where
  "ascii_upper s = map upper_char s"

section \<open>The world outside the program\<close>

text \<open>
  A JSON document is represented by the value it denotes: \<^verbatim>\<open>json.dumps(v)\<close> is
  \<open>JsonText v\<close>, and \<^verbatim>\<open>json.loads\<close> of that document gives \<open>v\<close> back, as Python's
  \<^verbatim>\<open>json\<close> module does on the values above.
\<close>

datatype json_text = JsonText json

fun json_dumps :: "json \<Rightarrow> json_text" where
  "json_dumps v = JsonText v"

fun json_loads :: "json_text \<Rightarrow> json" where
  "json_loads (JsonText v) = v"

text \<open>
  What \<^verbatim>\<open>requests.post\<close> gave: it raised, or it returned a response. Of a response the
  program uses \<^verbatim>\<open>raise_for_status()\<close> and \<^verbatim>\<open>json()\<close>. The library raises \<^verbatim>\<open>HTTPError\<close>, a
  \<^verbatim>\<open>RequestException\<close>, exactly for the status codes 400 to 599; \<open>http_error_text\<close> is
  the text of that exception. \<^verbatim>\<open>json()\<close> returns the parsed body or raises.
\<close>

record http_response =
  status_code :: nat
  http_error_text :: string
  json_body :: "pyexn + json"

datatype post_result = PostRaises pyexn | PostReturns http_response

text \<open>
  The two remote services, Python's \<^verbatim>\<open>str()\<close> on values that are not strings, and
  Python's \<^verbatim>\<open>str.upper()\<close>, whose result for a string is whatever the interpreter gives:
  \<open>post url payload\<close> is the completion endpoint, \<open>ticker_info t\<close> is
  \<^verbatim>\<open>yf.Ticker(t).info\<close>, which raises or returns the provider's mapping. The two
  requests of a turn never have the same payload, so a function of the request can give
  any pair of answers. The values of the provider are values of the \<^verbatim>\<open>json\<close> module too.
\<close>

record world =
  post :: "string \<Rightarrow> json \<Rightarrow> post_result"
  ticker_info :: "json \<Rightarrow> pyexn + json"
  py_str :: "json \<Rightarrow> string"
  str_upper :: "string \<Rightarrow> string"

definition raise_for_status :: "http_response \<Rightarrow> pyexn + unit" where
  "raise_for_status r =
     (if 400 \<le> status_code r \<and> status_code r < 600
      then Inl (Exn RequestException (http_error_text r)) else Inr ())"

text \<open>A value inside an f-string: a string is itself, anything else goes through \<^verbatim>\<open>str()\<close>.\<close>

fun fmt :: "world \<Rightarrow> json \<Rightarrow> string" where
  "fmt w (JStr s) = s"
| "fmt w JNull = ''None''"
| "fmt w (JBool b) = (if b then ''True'' else ''False'')"
| "fmt w v = py_str w v"

section \<open>Constants of the program\<close>

definition AGENT_MODEL :: string where
  "AGENT_MODEL = ''gemini-2.0-flash''"

definition AGENT_INSTRUCTION :: string where
  "AGENT_INSTRUCTION =
     ''You are a helpful stock market assistant.'' @ [CHR 0x0A] @
     ''You have access to a tool called `get_stock_info` that can fetch real-time stock data.'' @ [CHR 0x0A] @
     ''Use this tool when the user asks for current stock prices or information about a specific stock ticker.'' @ [CHR 0x0A] @
     ''When using the tool, provide the ticker symbol (e.g., 'AAPL', 'GOOGL').'' @ [CHR 0x0A] @
     ''If you don't know something, just say so.'' @ [CHR 0x0A] @
     ''Be concise and answer directly based on the information provided by the tool or your knowledge.'' @ [CHR 0x0A]"

definition STOCK_INFO_TOOL_SCHEMA :: json where
  "STOCK_INFO_TOOL_SCHEMA = JObj [
     (''name'', JStr ''get_stock_info''),
     (''description'', JStr ''Fetches real-time stock information for a given ticker symbol. Returns current price, previous close, open, high, low, and volume.''),
     (''parameters'', JObj [
        (''type'', JStr ''OBJECT''),
        (''properties'', JObj [
           (''ticker'', JObj [
              (''type'', JStr ''STRING''),
              (''description'', JStr ''The stock ticker symbol (e.g., 'AAPL', 'GOOGL', 'MSFT').'')])]),
        (''required'', JArr [JStr ''ticker''])])]"

definition tools :: json where
  "tools = JArr [JObj [(''functionDeclarations'', JArr [STOCK_INFO_TOOL_SCHEMA])]]"

section \<open>The tool: get\_stock\_info\<close>

definition not_found_message :: "world \<Rightarrow> json \<Rightarrow> string" where
  "not_found_message w ticker =
     ''Could not find information for ticker: '' @ fmt w ticker @ ''. Please check the symbol.''"

definition fetch_error_message :: "world \<Rightarrow> json \<Rightarrow> pyexn \<Rightarrow> string" where
  "fetch_error_message w ticker e =
     ''An error occurred while fetching data for '' @ fmt w ticker @ '': '' @ exn_str e"

text \<open>\<^verbatim>\<open>ticker.upper()\<close>: only a string has the method.\<close>

fun ticker_upper :: "world \<Rightarrow> json \<Rightarrow> pyexn + json" where
  "ticker_upper w (JStr s) = Inr (JStr (str_upper w s))"
| "ticker_upper w v = Inl (no_attribute v ''upper'')"

text \<open>The dictionary \<^verbatim>\<open>data\<close>; its entries are evaluated in the order written.\<close>

definition quote_data :: "world \<Rightarrow> json \<Rightarrow> json \<Rightarrow> pyexn + json" where
  "quote_data w ticker info =
     bind_exn (ticker_upper w ticker) (\<lambda>t.
     bind_exn (py_get_default info ''longName'' (JStr ''N/A'')) (\<lambda>longName.
     bind_exn (py_get_default info ''currency'' (JStr ''N/A'')) (\<lambda>currency.
     bind_exn (py_get_default info ''exchange'' (JStr ''N/A'')) (\<lambda>exchange.
     bind_exn (py_get_default info ''regularMarketPrice'' (JStr ''N/A'')) (\<lambda>regular.
     bind_exn (py_get_default info ''currentPrice'' regular) (\<lambda>currentPrice.
     bind_exn (py_get_default info ''previousClose'' (JStr ''N/A'')) (\<lambda>previousClose.
     bind_exn (py_get_default info ''open'' (JStr ''N/A'')) (\<lambda>open.
     bind_exn (py_get_default info ''dayHigh'' (JStr ''N/A'')) (\<lambda>dayHigh.
     bind_exn (py_get_default info ''dayLow'' (JStr ''N/A'')) (\<lambda>dayLow.
     bind_exn (py_get_default info ''volume'' (JStr ''N/A'')) (\<lambda>volume.
     bind_exn (py_get_default info ''marketCap'' (JStr ''N/A'')) (\<lambda>marketCap.
     Inr (JObj [
       (''ticker'', t),
       (''longName'', longName),
       (''currency'', currency),
       (''exchange'', exchange),
       (''currentPrice'', currentPrice),
       (''previousClose'', previousClose),
       (''open'', open),
       (''dayHigh'', dayHigh),
       (''dayLow'', dayLow),
       (''volume'', volume),
       (''marketCap'', marketCap)])))))))))))))"

text \<open>The body of the \<^verbatim>\<open>try\<close> block: the returned document, or the exception raised.\<close>

definition get_stock_info_try :: "world \<Rightarrow> json \<Rightarrow> pyexn + json_text" where
  "get_stock_info_try w ticker =
     bind_exn (ticker_info w ticker) (\<lambda>info.
       if \<not> truthy info
       then Inr (json_dumps (JObj [(''error'', JStr (not_found_message w ticker))]))
       else bind_exn (quote_data w ticker info) (\<lambda>data. Inr (json_dumps data)))"

definition get_stock_info :: "world \<Rightarrow> json \<Rightarrow> json_text" where
  "get_stock_info w ticker =
     (case get_stock_info_try w ticker of
        Inr out \<Rightarrow> out
      | Inl e \<Rightarrow> json_dumps (JObj [(''error'', JStr (fetch_error_message w ticker e))]))"

section \<open>The orchestrator: get\_agent\_response\<close>

text \<open>
  What the orchestrator does to the outside, in order: a request to the completion
  endpoint (URL and payload) or a call of \<open>get_stock_info\<close> (its argument). The calls
  of the user interface (\<^verbatim>\<open>st.info\<close>, \<^verbatim>\<open>st.error\<close>) only display text and are left out.
\<close>

datatype event = HttpPost string json | CallGetStockInfo json

fun is_post :: "event \<Rightarrow> bool" where
  "is_post (HttpPost url payload) = True"
| "is_post (CallGetStockInfo t) = False"

fun is_tool_call :: "event \<Rightarrow> bool" where
  "is_tool_call (HttpPost url payload) = False"
| "is_tool_call (CallGetStockInfo t) = True"

text \<open>A step that may raise, followed by steps that also act on the outside.\<close>

fun bind_ev :: "pyexn + 'a \<Rightarrow> ('a \<Rightarrow> (pyexn + 'b) \<times> event list) \<Rightarrow> (pyexn + 'b) \<times> event list" where
  "bind_ev (Inl e) f = (Inl e, [])"
| "bind_ev (Inr x) f = f x"

definition chat_history0 :: "string \<Rightarrow> json list" where
  "chat_history0 prompt =
     [JObj [(''role'', JStr ''user''), (''parts'', JArr [JObj [(''text'', JStr AGENT_INSTRUCTION)]])],
      JObj [(''role'', JStr ''user''), (''parts'', JArr [JObj [(''text'', JStr prompt)]])]]"

definition make_payload :: "json list \<Rightarrow> json" where
  "make_payload chat_history = JObj [(''contents'', JArr chat_history), (''tools'', tools)]"

definition api_url_of :: "string \<Rightarrow> string" where
  "api_url_of api_key =
     ''https://generativelanguage.googleapis.com/v1beta/models/'' @ AGENT_MODEL @
     '':generateContent?key='' @ api_key"

text \<open>\<^verbatim>\<open>requests.post(...)\<close>, \<^verbatim>\<open>raise_for_status()\<close>, \<^verbatim>\<open>json()\<close>.\<close>

definition http_json :: "world \<Rightarrow> string \<Rightarrow> json \<Rightarrow> pyexn + json" where
  "http_json w url payload =
     (case post w url payload of
        PostRaises e \<Rightarrow> Inl e
      | PostReturns r \<Rightarrow> bind_exn (raise_for_status r) (\<lambda>u. json_body r))"

text \<open>
  \<^verbatim>\<open>result["candidates"][0]\<close>, \<^verbatim>\<open>result["candidates"][0]["content"]\<close> and
  \<^verbatim>\<open>result["candidates"][0]["content"]["parts"][0]\<close>.
\<close>

definition candidate0 :: "json \<Rightarrow> pyexn + json" where
  "candidate0 result = bind_exn (py_item result ''candidates'') py_index0"

definition content0 :: "json \<Rightarrow> pyexn + json" where
  "content0 result = bind_exn (candidate0 result) (\<lambda>c. py_item c ''content'')"

definition part0 :: "json \<Rightarrow> pyexn + json" where
  "part0 result = bind_exn (content0 result) (\<lambda>c. bind_exn (py_item c ''parts'') py_index0)"

text \<open>
  The value of the condition
  \<^verbatim>\<open>result.get("candidates") and result["candidates"][0].get("content") and
  result["candidates"][0]["content"].get("parts") and
  result["candidates"][0]["content"]["parts"][0].get(field)\<close>:
  the first operand that is not true, or the last one.
\<close>

definition first_part_get :: "json \<Rightarrow> string \<Rightarrow> pyexn + json" where
  "first_part_get result field =
     bind_exn (py_get result ''candidates'') (\<lambda>a.
       if \<not> truthy a then Inr a else
     bind_exn (bind_exn (candidate0 result) (\<lambda>c. py_get c ''content'')) (\<lambda>b.
       if \<not> truthy b then Inr b else
     bind_exn (bind_exn (content0 result) (\<lambda>c. py_get c ''parts'')) (\<lambda>p.
       if \<not> truthy p then Inr p else
     bind_exn (part0 result) (\<lambda>p0. py_get p0 field))))"

text \<open>The text of the first part when the condition holds for \<^verbatim>\<open>"text"\<close>, else the fallback.\<close>

definition text_or :: "json \<Rightarrow> string \<Rightarrow> pyexn + json" where
  "text_or result fallback =
     bind_exn (first_part_get result ''text'') (\<lambda>c.
       if truthy c then bind_exn (part0 result) (\<lambda>p. py_item p ''text'')
       else Inr (JStr fallback))"

definition no_formulate_message :: string where
  "no_formulate_message =
     ''I received data from the stock tool, but couldn't formulate a clear response.''"

definition no_clear_message :: string where
  "no_clear_message = ''I couldn't get a clear response from the model. Please try again.''"

definition missing_key_message :: string where
  "missing_key_message = ''Gemini API Key is missing. Please provide it to use the assistant.''"

definition unknown_function_message :: "world \<Rightarrow> json \<Rightarrow> string" where
  "unknown_function_message w function_name =
     ''Agent tried to call an unknown function: '' @ fmt w function_name"

definition technical_issue_message :: "pyexn \<Rightarrow> string" where
  "technical_issue_message e =
     ''I'' @ [CHR 0x27] @ ''m currently unable to provide a response due to a technical issue: '' @
     exn_str e @
     ''. Please ensure your API key is correct and has access to the '' @ [CHR 0x27] @
     AGENT_MODEL @ [CHR 0x27] @ '' model.''"

definition model_entry :: "json \<Rightarrow> json" where
  "model_entry function_call =
     JObj [(''role'', JStr ''model''), (''parts'', JArr [JObj [(''functionCall'', function_call)]])]"

definition function_entry :: "json \<Rightarrow> json" where
  "function_entry response =
     JObj [(''role'', JStr ''function''),
           (''parts'', JArr [JObj [(''functionResponse'',
              JObj [(''name'', JStr ''get_stock_info''), (''response'', response)])]])]"

text \<open>
  The branch of the registered tool: the argument is read for the notice and again for
  the call, the tool runs, two entries are appended, the second request is sent.
\<close>

definition tool_round ::
  "world \<Rightarrow> string \<Rightarrow> json list \<Rightarrow> json \<Rightarrow> json \<Rightarrow> (pyexn + json) \<times> event list" where
  "tool_round w api_url chat_history function_call function_args =
     bind_ev (py_get function_args ''ticker'') (\<lambda>shown.
     bind_ev (py_get function_args ''ticker'') (\<lambda>ticker.
       let tool_output = get_stock_info w ticker;
           chat_history2 = chat_history @
             [model_entry function_call, function_entry (json_loads tool_output)];
           payload_with_tool_output = make_payload chat_history2
       in (bind_exn (http_json w api_url payload_with_tool_output)
             (\<lambda>result_final. text_or result_final no_formulate_message),
           [CallGetStockInfo ticker, HttpPost api_url payload_with_tool_output])))"

text \<open>What follows the first response inside the \<^verbatim>\<open>try\<close> block.\<close>

definition after_first ::
  "world \<Rightarrow> string \<Rightarrow> json list \<Rightarrow> json \<Rightarrow> (pyexn + json) \<times> event list" where
  "after_first w api_url chat_history result =
     bind_ev (first_part_get result ''functionCall'') (\<lambda>c.
       if truthy c then
         bind_ev (bind_exn (part0 result) (\<lambda>p. py_item p ''functionCall'')) (\<lambda>function_call.
         bind_ev (py_item function_call ''name'') (\<lambda>function_name.
         bind_ev (py_item function_call ''args'') (\<lambda>function_args.
           if function_name = JStr ''get_stock_info''
           then tool_round w api_url chat_history function_call function_args
           else (Inr (JStr (unknown_function_message w function_name)), []))))
       else (text_or result no_clear_message, []))"

definition agent_try :: "world \<Rightarrow> string \<Rightarrow> string \<Rightarrow> (pyexn + json) \<times> event list" where
  "agent_try w prompt api_key =
     (let chat_history = chat_history0 prompt;
          payload = make_payload chat_history;
          api_url = api_url_of api_key
      in case http_json w api_url payload of
           Inl e \<Rightarrow> (Inl e, [HttpPost api_url payload])
         | Inr result \<Rightarrow>
             (case after_first w api_url chat_history result of
                (r, evs) \<Rightarrow> (r, HttpPost api_url payload # evs)))"

text \<open>The two handlers: a \<^verbatim>\<open>RequestException\<close> first, any other \<^verbatim>\<open>Exception\<close> second.\<close>

fun handle :: "pyexn + json \<Rightarrow> pyexn + json" where
  "handle (Inr v) = Inr v"
| "handle (Inl e) =
     (if exn_class_of e = RequestException then Inr (JStr (technical_issue_message e))
      else Inr (JStr ''An unexpected error occurred.''))"

definition get_agent_response ::
  "world \<Rightarrow> string \<Rightarrow> string option \<Rightarrow> (pyexn + json) \<times> event list" where
  "get_agent_response w prompt api_key =
     (case api_key of
        None \<Rightarrow> (Inr (JStr missing_key_message), [])
      | Some k \<Rightarrow>
          if k = [] then (Inr (JStr missing_key_message), [])
          else (case agent_try w prompt k of (r, evs) \<Rightarrow> (handle r, evs)))"

section \<open>Properties to be stated\<close>

definition quote_keys :: "string list" where
  "quote_keys = [''ticker'', ''longName'', ''currency'', ''exchange'', ''currentPrice'',
     ''previousClose'', ''open'', ''dayHigh'', ''dayLow'', ''volume'', ''marketCap'']"

text \<open>An object with exactly the eleven fields of a quote, in the order of the program.\<close>

fun is_quote_object :: "json \<Rightarrow> bool" where
  "is_quote_object (JObj kvs) = (map fst kvs = quote_keys)"
| "is_quote_object v = False"

text \<open>An object with the single key \<^verbatim>\<open>error\<close>, holding a message.\<close>

fun is_error_object :: "json \<Rightarrow> bool" where
  "is_error_object (JObj [(k, JStr m)]) = (k = ''error'')"
| "is_error_object v = False"

text \<open>The value of a provider field, or the fallback when the key is absent.\<close>

definition field_or :: "(string \<times> json) list \<Rightarrow> string \<Rightarrow> json \<Rightarrow> json" where
  "field_or kvs k d = (case map_of kvs k of None \<Rightarrow> d | Some v \<Rightarrow> v)"


section \<open>Example worlds\<close>

definition respond_with :: "nat \<Rightarrow> json \<Rightarrow> post_result" where
  "respond_with status body_value =
     PostReturns \<lparr>status_code = status, http_error_text = ''HTTP error'', json_body = Inr body_value\<rparr>"

definition response_of_part :: "json \<Rightarrow> json" where
  "response_of_part part =
     JObj [(''candidates'', JArr [JObj [(''content'',
       JObj [(''role'', JStr ''model''), (''parts'', JArr [part])])]])]"

text \<open>An endpoint that answers the first request (two entries) and every later one.\<close>

definition scripted_post :: "post_result \<Rightarrow> post_result \<Rightarrow> string \<Rightarrow> json \<Rightarrow> post_result" where
  "scripted_post first second url payload =
     (case py_get payload ''contents'' of
        Inr (JArr [a, b]) \<Rightarrow> first
      | _ \<Rightarrow> second)"

definition example_info :: json where
  "example_info = JObj [
     (''longName'', JStr ''Apple Inc.''),
     (''currency'', JStr ''USD''),
     (''regularMarketPrice'', JFloat (FloatFinite 18925 (-2))),
     (''previousClose'', JInt 188),
     (''volume'', JInt 51000000)]"

definition example_provider :: "json \<Rightarrow> pyexn + json" where
  "example_provider t =
     (if t = JStr ''aapl'' then Inr example_info
      else if t = JStr ''ZZZZ'' then Inr (JObj [])
      else Inl (Exn OtherException ''connection refused''))"

definition example_world :: "post_result \<Rightarrow> post_result \<Rightarrow> world" where
  "example_world first second =
     \<lparr>post = scripted_post first second, ticker_info = example_provider, py_str = (\<lambda>v. ''?''),
       str_upper = ascii_upper\<rparr>"

definition call_of :: "string \<Rightarrow> json \<Rightarrow> json" where
  "call_of name args = JObj [(''functionCall'', JObj [(''name'', JStr name), (''args'', args)])]"

definition text_world :: "json \<Rightarrow> world" where
  "text_world t =
     example_world (respond_with 200 (response_of_part (JObj [(''text'', t)])))
       (PostRaises (Exn RequestException ''unreachable''))"

definition tool_world :: "post_result \<Rightarrow> world" where
  "tool_world second =
     example_world
       (respond_with 200 (response_of_part (call_of ''get_stock_info'' (JObj [(''ticker'', JStr ''aapl'')]))))
       second"

definition unknown_tool_world :: world where
  "unknown_tool_world =
     example_world
       (respond_with 200 (response_of_part (call_of ''do_something_else'' (JObj []))))
       (PostRaises (Exn RequestException ''unreachable''))"

definition unknown_tool_no_args_world :: world where
  "unknown_tool_no_args_world =
     example_world
       (respond_with 200 (response_of_part
          (JObj [(''functionCall'', JObj [(''name'', JStr ''do_something_else'')])])))
       (PostRaises (Exn RequestException ''unreachable''))"


definition failing_world :: world where
  "failing_world =
     example_world (PostRaises (Exn RequestException ''connection timed out''))
       (PostRaises (Exn RequestException ''unreachable''))"

definition answer_world :: world where
  "answer_world =
     tool_world (respond_with 200
       (response_of_part (JObj [(''text'', JStr ''AAPL trades at 189.25 USD.'')])))"

definition chained_tool_world :: world where
  "chained_tool_world =
     tool_world (respond_with 200
       (response_of_part (call_of ''get_stock_info'' (JObj [(''ticker'', JStr ''ZZZZ'')]))))"


section \<open>Basic facts about the readers\<close>

lemma bind_exn_InrD: "bind_exn m f = Inr y \<Longrightarrow> \<exists>x. m = Inr x \<and> f x = Inr y"
  by (cases m) simp_all

lemma bind_ev_case: "bind_ev m f = (case m of Inl e \<Rightarrow> (Inl e, []) | Inr x \<Rightarrow> f x)"
  by (cases m) simp_all

lemma py_item_InrD: "py_item v k = Inr x \<Longrightarrow> \<exists>kvs. v = JObj kvs \<and> map_of kvs k = Some x"
  by (cases v) (auto split: option.splits)

lemma py_item_get: "py_item v k = Inr x \<Longrightarrow> py_get v k = Inr x"
  by (auto dest!: py_item_InrD)

lemma py_item_truthy: "py_item v k = Inr x \<Longrightarrow> truthy v"
  by (auto dest!: py_item_InrD)

lemma py_index0_truthy: "py_index0 v = Inr x \<Longrightarrow> truthy v"
  by (cases v) (auto split: list.splits)

lemma py_get_truthy_item: "py_get v k = Inr c \<Longrightarrow> truthy c \<Longrightarrow> py_item v k = Inr c"
  by (cases v) (auto split: option.splits)

lemma py_get_default_obj: "py_get_default (JObj kvs) k d = Inr (field_or kvs k d)"
  by (simp add: field_or_def)

section \<open>The tool\<close>

lemma quote_data_obj:
  "quote_data w (JStr t) (JObj kvs) = Inr (JObj [
     (''ticker'', JStr (str_upper w t)),
     (''longName'', field_or kvs ''longName'' (JStr ''N/A'')),
     (''currency'', field_or kvs ''currency'' (JStr ''N/A'')),
     (''exchange'', field_or kvs ''exchange'' (JStr ''N/A'')),
     (''currentPrice'',
        field_or kvs ''currentPrice'' (field_or kvs ''regularMarketPrice'' (JStr ''N/A''))),
     (''previousClose'', field_or kvs ''previousClose'' (JStr ''N/A'')),
     (''open'', field_or kvs ''open'' (JStr ''N/A'')),
     (''dayHigh'', field_or kvs ''dayHigh'' (JStr ''N/A'')),
     (''dayLow'', field_or kvs ''dayLow'' (JStr ''N/A'')),
     (''volume'', field_or kvs ''volume'' (JStr ''N/A'')),
     (''marketCap'', field_or kvs ''marketCap'' (JStr ''N/A''))])"
  unfolding quote_data_def py_get_default_obj by simp

lemma quote_data_shape: "quote_data w ticker info = Inr v \<Longrightarrow> is_quote_object v"
  unfolding quote_data_def
  by (auto dest!: bind_exn_InrD simp: quote_keys_def)

lemma get_stock_info_try_shape:
  "get_stock_info_try w ticker = Inr out \<Longrightarrow>
     is_quote_object (json_loads out) \<or> is_error_object (json_loads out)"
  unfolding get_stock_info_try_def
  by (auto dest!: bind_exn_InrD quote_data_shape split: if_splits)

lemma example_info_aapl:
  "ticker_info (text_world JNull) (JStr ''aapl'') = Inr (JObj [
     (''longName'', JStr ''Apple Inc.''),
     (''currency'', JStr ''USD''),
     (''regularMarketPrice'', JFloat (FloatFinite 18925 (-2))),
     (''previousClose'', JInt 188),
     (''volume'', JInt 51000000)])"
  by (simp add: text_world_def example_world_def example_provider_def example_info_def)

text \<open>
  C5. When the provider returns a non-empty mapping for a ticker string,
  \<open>get_stock_info\<close> produces the object with all eleven fields \<^verbatim>\<open>ticker\<close>, \<^verbatim>\<open>longName\<close>,
  \<^verbatim>\<open>currency\<close>, \<^verbatim>\<open>exchange\<close>, \<^verbatim>\<open>currentPrice\<close>, \<^verbatim>\<open>previousClose\<close>, \<^verbatim>\<open>open\<close>, \<^verbatim>\<open>dayHigh\<close>,
  \<^verbatim>\<open>dayLow\<close>, \<^verbatim>\<open>volume\<close> and \<^verbatim>\<open>marketCap\<close>: \<^verbatim>\<open>currentPrice\<close> falls back to the provider's
  \<^verbatim>\<open>regularMarketPrice\<close> and then to \<^verbatim>\<open>"N/A"\<close>, every other provider field falls back to
  \<^verbatim>\<open>"N/A"\<close> when its key is missing. The \<^verbatim>\<open>ticker\<close> field is \<^verbatim>\<open>ticker.upper()\<close>, whatever
  Python's case mapping makes of the ticker.
\<close>

theorem get_stock_info_quote_record:
  assumes "ticker_info w (JStr t) = Inr (JObj kvs)" and "kvs \<noteq> []"
  shows "json_loads (get_stock_info w (JStr t)) = JObj [
     (''ticker'', JStr (str_upper w t)),
     (''longName'', field_or kvs ''longName'' (JStr ''N/A'')),
     (''currency'', field_or kvs ''currency'' (JStr ''N/A'')),
     (''exchange'', field_or kvs ''exchange'' (JStr ''N/A'')),
     (''currentPrice'',
        field_or kvs ''currentPrice'' (field_or kvs ''regularMarketPrice'' (JStr ''N/A''))),
     (''previousClose'', field_or kvs ''previousClose'' (JStr ''N/A'')),
     (''open'', field_or kvs ''open'' (JStr ''N/A'')),
     (''dayHigh'', field_or kvs ''dayHigh'' (JStr ''N/A'')),
     (''dayLow'', field_or kvs ''dayLow'' (JStr ''N/A'')),
     (''volume'', field_or kvs ''volume'' (JStr ''N/A'')),
     (''marketCap'', field_or kvs ''marketCap'' (JStr ''N/A''))]
   \<and> is_quote_object (json_loads (get_stock_info w (JStr t)))"
  using assms
  by (simp add: get_stock_info_def get_stock_info_try_def quote_data_obj quote_keys_def)

theorem get_stock_info_quote_record_witness:
  "json_loads (get_stock_info (text_world JNull) (JStr ''aapl'')) = JObj [
     (''ticker'', JStr ''AAPL''),
     (''longName'', JStr ''Apple Inc.''),
     (''currency'', JStr ''USD''),
     (''exchange'', JStr ''N/A''),
     (''currentPrice'', JFloat (FloatFinite 18925 (-2))),
     (''previousClose'', JInt 188),
     (''open'', JStr ''N/A''),
     (''dayHigh'', JStr ''N/A''),
     (''dayLow'', JStr ''N/A''),
     (''volume'', JInt 51000000),
     (''marketCap'', JStr ''N/A'')]"
  using get_stock_info_quote_record [OF example_info_aapl]
  by (simp add: field_or_def text_world_def example_world_def ascii_upper_def upper_char_def)

text \<open>
  C6. When the provider returns no usable data for a ticker string, \<open>get_stock_info\<close>
  returns an error object whose message is
  \<^verbatim>\<open>Could not find information for ticker: <T>. Please check the symbol.\<close>, with the
  literal ticker text in it. When the provider raises, and more generally when any step of
  the \<^verbatim>\<open>try\<close> block raises, it returns an error object whose message holds the ticker
  and the text of the exception; the exception does not reach the caller.
\<close>

theorem get_stock_info_error_results:
  "(ticker_info w (JStr t) = Inr info \<and> \<not> truthy info \<longrightarrow>
      json_loads (get_stock_info w (JStr t)) =
        JObj [(''error'', JStr (''Could not find information for ticker: '' @ t @
                 ''. Please check the symbol.''))])
   \<and> (ticker_info w (JStr t) = Inl e \<longrightarrow>
      json_loads (get_stock_info w (JStr t)) =
        JObj [(''error'', JStr (''An error occurred while fetching data for '' @ t @ '': '' @
                 exn_str e))])
   \<and> (get_stock_info_try w (JStr t) = Inl e \<longrightarrow>
      json_loads (get_stock_info w (JStr t)) =
        JObj [(''error'', JStr (''An error occurred while fetching data for '' @ t @ '': '' @
                 exn_str e))])"
  by (simp add: get_stock_info_def get_stock_info_try_def not_found_message_def
      fetch_error_message_def)

theorem get_stock_info_error_results_witness:
  "json_loads (get_stock_info (text_world JNull) (JStr ''ZZZZ'')) =
     JObj [(''error'',
       JStr ''Could not find information for ticker: ZZZZ. Please check the symbol.'')]
   \<and> json_loads (get_stock_info (text_world JNull) (JStr ''MSFT'')) =
     JObj [(''error'',
       JStr ''An error occurred while fetching data for MSFT: connection refused'')]"
proof -
  have a: "ticker_info (text_world JNull) (JStr ''ZZZZ'') = Inr (JObj []) \<and> \<not> truthy (JObj [])"
    by (simp add: text_world_def example_world_def example_provider_def)
  have b: "ticker_info (text_world JNull) (JStr ''MSFT'') =
      Inl (Exn OtherException ''connection refused'')"
    by (simp add: text_world_def example_world_def example_provider_def)
  have c: "get_stock_info_try (text_world JNull) (JStr ''MSFT'') =
      Inl (Exn OtherException ''connection refused'')"
    using b by (simp add: get_stock_info_try_def)
  show ?thesis
    using a b c
      get_stock_info_error_results [of "text_world JNull" "''ZZZZ''" "JObj []"]
      get_stock_info_error_results [of "text_world JNull" "''MSFT''" _
        "Exn OtherException ''connection refused''"]
    by simp
qed

text \<open>
  C10. For every argument, \<^verbatim>\<open>None\<close> included, \<open>get_stock_info\<close> returns a JSON document
  whose top-level value is either the object with the eleven fields of a quote or an
  object with the single key \<^verbatim>\<open>error\<close>; for \<^verbatim>\<open>None\<close> it is the error object. So
  \<^verbatim>\<open>json.loads\<close> of the tool output, as the orchestrator applies it, has a value.
\<close>

theorem get_stock_info_json_shape:
  "(is_quote_object (json_loads (get_stock_info w ticker)) \<or>
    is_error_object (json_loads (get_stock_info w ticker))) \<and>
   is_error_object (json_loads (get_stock_info w JNull))"
proof
  show "is_quote_object (json_loads (get_stock_info w ticker)) \<or>
    is_error_object (json_loads (get_stock_info w ticker))"
    using get_stock_info_try_shape [of w ticker]
    by (cases "get_stock_info_try w ticker") (simp_all add: get_stock_info_def)
next
  have "quote_data w JNull info = Inl (no_attribute JNull ''upper'')" for info
    by (simp add: quote_data_def)
  then show "is_error_object (json_loads (get_stock_info w JNull))"
    by (cases "ticker_info w JNull") (simp_all add: get_stock_info_def get_stock_info_try_def)
qed

section \<open>The orchestrator\<close>

text \<open>
  C7. With no credential (the key is \<^verbatim>\<open>None\<close> or the empty string)
  \<open>get_agent_response\<close> returns a non-empty explanatory string as its value, and nothing
  is done to the outside: no completion request, no call of the tool.
\<close>

theorem missing_credential_message:
  assumes "api_key = None \<or> api_key = Some []"
  shows "get_agent_response w prompt api_key = (Inr (JStr missing_key_message), [])
         \<and> missing_key_message \<noteq> []"
  using assms by (auto simp: get_agent_response_def missing_key_message_def)

theorem missing_credential_message_witness:
  "get_agent_response failing_world ''What is AAPL?'' None =
     (Inr (JStr ''Gemini API Key is missing. Please provide it to use the assistant.''), [])"
  using missing_credential_message [of None failing_world "''What is AAPL?''"]
  by (simp add: missing_key_message_def)

text \<open>
  When the path to the first part can be read, all the operands before the last one in the
  condition are true, and the condition has the value of \<^verbatim>\<open>part.get(field)\<close>.
\<close>

lemma part0_D:
  assumes "part0 r = Inr p"
  obtains cs c ct ps where "py_item r ''candidates'' = Inr cs" "py_index0 cs = Inr c"
    "py_item c ''content'' = Inr ct" "py_item ct ''parts'' = Inr ps" "py_index0 ps = Inr p"
  using assms unfolding part0_def content0_def candidate0_def
  by (auto dest!: bind_exn_InrD)

lemma first_part_get_part0:
  assumes "part0 r = Inr p"
  shows "first_part_get r f = py_get p f"
proof -
  from assms obtain cs c ct ps where h: "py_item r ''candidates'' = Inr cs" "py_index0 cs = Inr c"
    "py_item c ''content'' = Inr ct" "py_item ct ''parts'' = Inr ps" "py_index0 ps = Inr p"
    by (rule part0_D)
  have c0: "candidate0 r = Inr c" using h by (simp add: candidate0_def)
  have ct0: "content0 r = Inr ct" using h c0 by (simp add: content0_def)
  have t: "truthy cs" "truthy ct" "truthy ps"
    using h py_index0_truthy py_item_truthy by blast+
  show ?thesis
    using h c0 ct0 t assms by (simp add: first_part_get_def py_item_get)
qed

lemma first_part_get_truthyD:
  assumes "first_part_get r f = Inr c" and "truthy c"
  shows "\<exists>p. part0 r = Inr p \<and> py_item p f = Inr c"
  using assms unfolding first_part_get_def
  by (auto dest!: bind_exn_InrD split: if_splits simp: py_get_truthy_item)

lemma text_or_cases:
  assumes "text_or r fb = Inr v"
  shows "v = JStr fb \<or> (first_part_get r ''text'' = Inr v \<and> truthy v)"
proof -
  from assms obtain c where c: "first_part_get r ''text'' = Inr c"
    and v: "(if truthy c then bind_exn (part0 r) (\<lambda>p. py_item p ''text'') else Inr (JStr fb)) = Inr v"
    unfolding text_or_def by (auto dest!: bind_exn_InrD)
  show ?thesis
  proof (cases "truthy c")
    case True
    with c obtain p where "part0 r = Inr p" "py_item p ''text'' = Inr c"
      using first_part_get_truthyD by blast
    with v True have "v = c" by simp
    with c True show ?thesis by simp
  next
    case False
    with v show ?thesis by simp
  qed
qed

lemma text_or_text:
  assumes "part0 r = Inr p" and "py_item p ''text'' = Inr v" and "truthy v"
  shows "text_or r fb = Inr v"
  using assms by (simp add: text_or_def first_part_get_part0 py_item_get)

lemma text_or_fallback:
  assumes "part0 r = Inr p" and "py_get p ''text'' = Inr c" and "\<not> truthy c"
  shows "text_or r fb = Inr (JStr fb)"
  using assms by (simp add: text_or_def first_part_get_part0)

subsection \<open>The three outcomes of a first response\<close>

lemma tool_call_events:
  assumes "api_key \<noteq> []"
    and "http_json w (api_url_of api_key) (make_payload (chat_history0 prompt)) = Inr result"
    and "part0 result = Inr part"
    and "py_item part ''functionCall'' = Inr function_call"
    and "py_item function_call ''name'' = Inr (JStr ''get_stock_info'')"
    and "py_item function_call ''args'' = Inr args"
    and "py_get args ''ticker'' = Inr T"
  shows "get_agent_response w prompt (Some api_key) =
    (handle (bind_exn (http_json w (api_url_of api_key) (make_payload (chat_history0 prompt @
        [model_entry function_call, function_entry (json_loads (get_stock_info w T))])))
         (\<lambda>rf. text_or rf no_formulate_message)),
     [HttpPost (api_url_of api_key) (make_payload (chat_history0 prompt)),
      CallGetStockInfo T,
      HttpPost (api_url_of api_key) (make_payload (chat_history0 prompt @
        [model_entry function_call, function_entry (json_loads (get_stock_info w T))]))])"
proof -
  have fc: "first_part_get result ''functionCall'' = Inr function_call"
    using assms(3,4) by (simp add: first_part_get_part0 py_item_get)
  have t: "truthy function_call" using assms(5) by (rule py_item_truthy)
  have "after_first w (api_url_of api_key) (chat_history0 prompt) result =
      tool_round w (api_url_of api_key) (chat_history0 prompt) function_call args"
    using fc t assms(3-6) by (simp add: after_first_def)
  also have "\<dots> =
    (bind_exn (http_json w (api_url_of api_key) (make_payload (chat_history0 prompt @
        [model_entry function_call, function_entry (json_loads (get_stock_info w T))])))
         (\<lambda>rf. text_or rf no_formulate_message),
     [CallGetStockInfo T,
      HttpPost (api_url_of api_key) (make_payload (chat_history0 prompt @
        [model_entry function_call, function_entry (json_loads (get_stock_info w T))]))])"
    using assms(7) by (simp add: tool_round_def Let_def)
  finally show ?thesis
    using assms(1,2) by (simp add: get_agent_response_def agent_try_def Let_def)
qed

text \<open>
  C2. When the first part of the first completion response is a \<^verbatim>\<open>functionCall\<close> naming
  \<^verbatim>\<open>get_stock_info\<close> with the ticker argument \<open>T\<close>, the orchestrator acts on the outside
  exactly three times: the first request, one call of \<open>get_stock_info\<close> with \<open>T\<close>, and one
  second request. The contents of the second request are the two entries of the first
  one (instruction text, user text), then a \<^verbatim>\<open>model\<close> entry with the function call object
  as received, then a \<^verbatim>\<open>function\<close> entry with the parsed tool output under the name
  \<^verbatim>\<open>get_stock_info\<close>; both requests carry the same tool declarations.
\<close>

theorem tool_call_round_trip:
  assumes "api_key \<noteq> []"
    and "http_json w (api_url_of api_key) (make_payload (chat_history0 prompt)) = Inr result"
    and "part0 result = Inr part"
    and "py_item part ''functionCall'' = Inr function_call"
    and "py_item function_call ''name'' = Inr (JStr ''get_stock_info'')"
    and "py_item function_call ''args'' = Inr args"
    and "py_item args ''ticker'' = Inr T"
  shows "snd (get_agent_response w prompt (Some api_key)) =
    [HttpPost (api_url_of api_key)
       (JObj [(''contents'', JArr [
          JObj [(''role'', JStr ''user''), (''parts'', JArr [JObj [(''text'', JStr AGENT_INSTRUCTION)]])],
          JObj [(''role'', JStr ''user''), (''parts'', JArr [JObj [(''text'', JStr prompt)]])]]),
        (''tools'', tools)]),
     CallGetStockInfo T,
     HttpPost (api_url_of api_key)
       (JObj [(''contents'', JArr [
          JObj [(''role'', JStr ''user''), (''parts'', JArr [JObj [(''text'', JStr AGENT_INSTRUCTION)]])],
          JObj [(''role'', JStr ''user''), (''parts'', JArr [JObj [(''text'', JStr prompt)]])],
          JObj [(''role'', JStr ''model''), (''parts'', JArr [JObj [(''functionCall'', function_call)]])],
          JObj [(''role'', JStr ''function''), (''parts'', JArr [JObj [(''functionResponse'',
            JObj [(''name'', JStr ''get_stock_info''),
                  (''response'', json_loads (get_stock_info w T))])]])]]),
        (''tools'', tools)])]"
proof -
  have tk: "py_get args ''ticker'' = Inr T" using assms(7) by (rule py_item_get)
  show ?thesis
    unfolding tool_call_events [OF assms(1-6) tk]
    by (simp add: make_payload_def chat_history0_def model_entry_def function_entry_def)
qed

text \<open>
  C3 (amended). When the first part of the first completion response is a \<^verbatim>\<open>functionCall\<close>
  whose name is anything but \<^verbatim>\<open>get_stock_info\<close>, the orchestrator does nothing after the
  first request: \<open>get_stock_info\<close> is not called and no second request is sent. When the
  \<^verbatim>\<open>functionCall\<close> object also has an \<^verbatim>\<open>args\<close> entry, the returned string is
  \<^verbatim>\<open>Agent tried to call an unknown function: <name>\<close>, with the name as the f-string
  formats it (a string name as it is).
\<close>

theorem unknown_tool_not_executed:
  assumes "api_key \<noteq> []"
    and "http_json w (api_url_of api_key) (make_payload (chat_history0 prompt)) = Inr result"
    and "part0 result = Inr part"
    and "py_item part ''functionCall'' = Inr function_call"
    and "py_item function_call ''name'' = Inr name"
    and "name \<noteq> JStr ''get_stock_info''"
  shows "snd (get_agent_response w prompt (Some api_key)) =
      [HttpPost (api_url_of api_key) (make_payload (chat_history0 prompt))]
    \<and> (py_item function_call ''args'' = Inr args \<longrightarrow>
         fst (get_agent_response w prompt (Some api_key)) =
           Inr (JStr (''Agent tried to call an unknown function: '' @ fmt w name)))
    \<and> (py_item function_call ''args'' = Inr args \<and> name = JStr n \<longrightarrow>
         fst (get_agent_response w prompt (Some api_key)) =
           Inr (JStr (''Agent tried to call an unknown function: '' @ n)))"
proof -
  have fc: "first_part_get result ''functionCall'' = Inr function_call"
    using assms(3,4) by (simp add: first_part_get_part0 py_item_get)
  have t: "truthy function_call" using assms(5) by (rule py_item_truthy)
  have af: "after_first w (api_url_of api_key) (chat_history0 prompt) result =
     bind_ev (py_item function_call ''args'') (\<lambda>function_args.
       (Inr (JStr (''Agent tried to call an unknown function: '' @ fmt w name)), []))"
    using fc t assms(3-6) by (simp add: after_first_def unknown_function_message_def)
  have g: "get_agent_response w prompt (Some api_key) =
     (handle (fst (after_first w (api_url_of api_key) (chat_history0 prompt) result)),
      HttpPost (api_url_of api_key) (make_payload (chat_history0 prompt)) #
        snd (after_first w (api_url_of api_key) (chat_history0 prompt) result))"
    using assms(1,2)
    by (cases "after_first w (api_url_of api_key) (chat_history0 prompt) result")
       (simp add: get_agent_response_def agent_try_def Let_def)
  show ?thesis
    unfolding g af
    by (cases "py_item function_call ''args''") auto
qed

text \<open>
  C9 (amended). When the first part of the first completion response carries no tool
  invocation, the orchestrator does nothing after the first request: no second request
  and no call of \<open>get_stock_info\<close>. When that part carries a non-empty text, the
  orchestrator returns the text unchanged.
\<close>

theorem plain_text_returned:
  assumes "api_key \<noteq> []"
    and "http_json w (api_url_of api_key) (make_payload (chat_history0 prompt)) = Inr result"
    and "part0 result = Inr part"
    and "py_get part ''functionCall'' = Inr fc"
    and "\<not> truthy fc"
  shows "snd (get_agent_response w prompt (Some api_key)) =
      [HttpPost (api_url_of api_key) (make_payload (chat_history0 prompt))]
    \<and> (py_item part ''text'' = Inr (JStr t) \<and> t \<noteq> [] \<longrightarrow>
         fst (get_agent_response w prompt (Some api_key)) = Inr (JStr t))"
proof -
  have fc: "first_part_get result ''functionCall'' = Inr fc"
    using assms(3,4) by (simp add: first_part_get_part0)
  have af: "after_first w (api_url_of api_key) (chat_history0 prompt) result =
      (text_or result no_clear_message, [])"
    using fc assms(5) by (simp add: after_first_def)
  have g: "get_agent_response w prompt (Some api_key) =
     (handle (text_or result no_clear_message),
      [HttpPost (api_url_of api_key) (make_payload (chat_history0 prompt))])"
    using assms(1,2) af by (simp add: get_agent_response_def agent_try_def Let_def)
  have "text_or result no_clear_message = Inr (JStr t)"
    if "py_item part ''text'' = Inr (JStr t)" and "t \<noteq> []"
    using assms(3) that by (intro text_or_text) simp_all
  then show ?thesis
    unfolding g by auto
qed

subsection \<open>Every run\<close>

lemma text_or_value:
  assumes "text_or r fb = Inr v" and "fb \<noteq> []"
  shows "truthy v \<and> (is_str v \<or> first_part_get r ''text'' = Inr v)"
  using text_or_cases [OF assms(1)] assms(2) by auto

lemma tool_round_shape:
  "(\<exists>e. tool_round w u h fc args = (Inl e, [])) \<or>
   (\<exists>t. tool_round w u h fc args =
      (bind_exn (http_json w u (make_payload (h @ [model_entry fc,
           function_entry (json_loads (get_stock_info w t))])))
         (\<lambda>rf. text_or rf no_formulate_message),
       [CallGetStockInfo t, HttpPost u (make_payload (h @ [model_entry fc,
           function_entry (json_loads (get_stock_info w t))]))]))"
  by (cases "py_get args ''ticker''") (simp_all add: tool_round_def Let_def)

lemma after_first_shape:
  "(\<exists>r. after_first w u h result = (r, []) \<and>
        (\<forall>v. r = Inr v \<longrightarrow> truthy v \<and> (is_str v \<or> first_part_get result ''text'' = Inr v))) \<or>
   (\<exists>t fc. after_first w u h result =
      (bind_exn (http_json w u (make_payload (h @ [model_entry fc,
           function_entry (json_loads (get_stock_info w t))])))
         (\<lambda>rf. text_or rf no_formulate_message),
       [CallGetStockInfo t, HttpPost u (make_payload (h @ [model_entry fc,
           function_entry (json_loads (get_stock_info w t))]))]))"
proof (cases "first_part_get result ''functionCall''")
  case (Inl e)
  then show ?thesis by (simp add: after_first_def)
next
  case (Inr c)
  show ?thesis
  proof (cases "truthy c")
    case False
    have "no_clear_message \<noteq> []" by (simp add: no_clear_message_def)
    then have "\<forall>v. text_or result no_clear_message = Inr v \<longrightarrow>
        truthy v \<and> (is_str v \<or> first_part_get result ''text'' = Inr v)"
      using text_or_value by blast
    with Inr False show ?thesis by (simp add: after_first_def)
  next
    case True
    show ?thesis
    proof (cases "bind_exn (part0 result) (\<lambda>p. py_item p ''functionCall'')")
      case (Inl e)
      with Inr True show ?thesis by (simp add: after_first_def)
    next
      case fc: (Inr function_call)
      show ?thesis
      proof (cases "py_item function_call ''name''")
        case (Inl e)
        with Inr True fc show ?thesis by (simp add: after_first_def)
      next
        case nm: (Inr function_name)
        show ?thesis
        proof (cases "py_item function_call ''args''")
          case (Inl e)
          with Inr True fc nm show ?thesis by (simp add: after_first_def)
        next
          case ar: (Inr function_args)
          show ?thesis
          proof (cases "function_name = JStr ''get_stock_info''")
            case False
            with Inr True fc nm ar show ?thesis
              by (simp add: after_first_def unknown_function_message_def)
          next
            case eq: True
            have af: "after_first w u h result = tool_round w u h function_call function_args"
              using Inr True fc nm ar eq by (simp add: after_first_def)
            show ?thesis
              using tool_round_shape [of w u h function_call function_args]
              unfolding af by auto
          qed
        qed
      qed
    qed
  qed
qed




lemma agent_try_shape:
  "(\<exists>r. agent_try w prompt k = (r, [HttpPost (api_url_of k) (make_payload (chat_history0 prompt))]) \<and>
        (\<forall>e. http_json w (api_url_of k) (make_payload (chat_history0 prompt)) = Inl e \<longrightarrow> r = Inl e) \<and>
        (\<forall>v. r = Inr v \<longrightarrow> truthy v \<and> (is_str v \<or>
           (\<exists>result. http_json w (api_url_of k) (make_payload (chat_history0 prompt)) = Inr result \<and>
              first_part_get result ''text'' = Inr v)))) \<or>
   (\<exists>t fc result. http_json w (api_url_of k) (make_payload (chat_history0 prompt)) = Inr result \<and>
      agent_try w prompt k =
      (bind_exn (http_json w (api_url_of k) (make_payload (chat_history0 prompt @ [model_entry fc,
           function_entry (json_loads (get_stock_info w t))])))
         (\<lambda>rf. text_or rf no_formulate_message),
       [HttpPost (api_url_of k) (make_payload (chat_history0 prompt)),
        CallGetStockInfo t,
        HttpPost (api_url_of k) (make_payload (chat_history0 prompt @ [model_entry fc,
           function_entry (json_loads (get_stock_info w t))]))]))"
proof (cases "http_json w (api_url_of k) (make_payload (chat_history0 prompt))")
  case (Inl e)
  then show ?thesis by (simp add: agent_try_def Let_def)
next
  case (Inr result)
  show ?thesis
    using after_first_shape [of w "api_url_of k" "chat_history0 prompt" result] Inr
    by (auto simp: agent_try_def Let_def)
qed


lemma handle_Inl: "\<exists>s. handle (Inl e) = Inr (JStr s) \<and> s \<noteq> []"
  by (simp add: technical_issue_message_def)

lemma handle_request_exception:
  "exn_class_of e = RequestException \<Longrightarrow> handle (Inl e) = Inr (JStr (technical_issue_message e))"
  by simp

lemma get_agent_response_key:
  "k \<noteq> [] \<Longrightarrow> get_agent_response w prompt (Some k) =
     (handle (fst (agent_try w prompt k)), snd (agent_try w prompt k))"
  by (cases "agent_try w prompt k") (simp add: get_agent_response_def)

text \<open>
  C1 (amended). For every user text, credential and behaviour of the endpoint and the
  provider, \<open>get_agent_response\<close> returns a value, never an exception, and the value is
  true in Python's sense. It is a non-empty string in every case but one: when the value
  is the \<^verbatim>\<open>text\<close> entry of the first part of a response the endpoint gave in this turn,
  it is that entry as it came, a non-empty string only if the response held a string there.
\<close>

theorem respond_always_returns:
  "\<exists>v. fst (get_agent_response w prompt api_key) = Inr v \<and> truthy v \<and>
     (is_str v \<or>
      (\<exists>url payload result.
         HttpPost url payload \<in> set (snd (get_agent_response w prompt api_key)) \<and>
         http_json w url payload = Inr result \<and>
         first_part_get result ''text'' = Inr v))"
proof (cases "api_key = None \<or> api_key = Some []")
  case True
  then show ?thesis
    by (auto simp: get_agent_response_def missing_key_message_def)
next
  case False
  then obtain k where k: "api_key = Some k" "k \<noteq> []" by (cases api_key) auto
  let ?u = "api_url_of k"
  let ?p1 = "make_payload (chat_history0 prompt)"
  note g = get_agent_response_key [OF k(2), of w prompt]
  from agent_try_shape [of w prompt k] show ?thesis
  proof (elim disjE exE conjE)
    fix r
    assume a: "agent_try w prompt k = (r, [HttpPost ?u ?p1])"
      and v: "\<forall>v. r = Inr v \<longrightarrow> truthy v \<and> (is_str v \<or>
           (\<exists>result. http_json w ?u ?p1 = Inr result \<and> first_part_get result ''text'' = Inr v))"
    show ?thesis
    proof (cases r)
      case (Inl e)
      with a g k handle_Inl [of e] show ?thesis by auto
    next
      case (Inr x)
      with v have "truthy x \<and> (is_str x \<or>
           (\<exists>result. http_json w ?u ?p1 = Inr result \<and> first_part_get result ''text'' = Inr x))"
        by simp
      with a g k Inr show ?thesis by auto
    qed
  next
    fix t fc result
    let ?p2 = "make_payload (chat_history0 prompt @ [model_entry fc,
           function_entry (json_loads (get_stock_info w t))])"
    assume a: "agent_try w prompt k =
      (bind_exn (http_json w ?u ?p2) (\<lambda>rf. text_or rf no_formulate_message),
       [HttpPost ?u ?p1, CallGetStockInfo t, HttpPost ?u ?p2])"
    show ?thesis
    proof (cases "bind_exn (http_json w ?u ?p2) (\<lambda>rf. text_or rf no_formulate_message)")
      case (Inl e)
      with a g k handle_Inl [of e] show ?thesis by auto
    next
      case (Inr x)
      then obtain rf where rf: "http_json w ?u ?p2 = Inr rf" "text_or rf no_formulate_message = Inr x"
        by (auto dest!: bind_exn_InrD)
      have "no_formulate_message \<noteq> []" by (simp add: no_formulate_message_def)
      with rf(2) have "truthy x \<and> (is_str x \<or> first_part_get rf ''text'' = Inr x)"
        by (rule text_or_value)
      with a g k Inr rf(1) show ?thesis by auto
    qed
  qed
qed

text \<open>
  C4. In every turn at most two completion requests are sent and \<open>get_stock_info\<close> is
  called at most once. When a second request was sent and the first part of its response
  is a further \<^verbatim>\<open>functionCall\<close> without text, the turn ends there with the string
  \<^verbatim>\<open>I received data from the stock tool, but couldn't formulate a clear response.\<close>:
  the tool was called once, before that request, and is not called again.
\<close>

theorem at_most_one_tool_round:
  "length (filter is_post (snd (get_agent_response w prompt api_key))) \<le> 2 \<and>
   length (filter is_tool_call (snd (get_agent_response w prompt api_key))) \<le> 1 \<and>
   (filter is_post (snd (get_agent_response w prompt api_key)) = [HttpPost u1 p1, HttpPost u2 p2] \<and>
    http_json w u2 p2 = Inr result_final \<and>
    part0 result_final = Inr part \<and>
    py_item part ''functionCall'' = Inr function_call \<and>
    py_get part ''text'' = Inr c \<and> \<not> truthy c
    \<longrightarrow> fst (get_agent_response w prompt api_key) =
          Inr (JStr (''I received data from the stock tool, but couldn'' @ [CHR 0x27] @
                     ''t formulate a clear response.'')) \<and>
        (\<exists>t. snd (get_agent_response w prompt api_key) =
           [HttpPost u1 p1, CallGetStockInfo t, HttpPost u2 p2]))"
proof (cases "api_key = None \<or> api_key = Some []")
  case True
  then show ?thesis
    by (auto simp: get_agent_response_def)
next
  case False
  then obtain k where k: "api_key = Some k" "k \<noteq> []" by (cases api_key) auto
  let ?u = "api_url_of k"
  let ?p1 = "make_payload (chat_history0 prompt)"
  note g = get_agent_response_key [OF k(2), of w prompt]
  from agent_try_shape [of w prompt k] show ?thesis
  proof (elim disjE exE conjE)
    fix r
    assume a: "agent_try w prompt k = (r, [HttpPost ?u ?p1])"
    with g k show ?thesis by simp
  next
    fix t fc result
    let ?p2 = "make_payload (chat_history0 prompt @ [model_entry fc,
           function_entry (json_loads (get_stock_info w t))])"
    assume a: "agent_try w prompt k =
      (bind_exn (http_json w ?u ?p2) (\<lambda>rf. text_or rf no_formulate_message),
       [HttpPost ?u ?p1, CallGetStockInfo t, HttpPost ?u ?p2])"
    have ev: "snd (get_agent_response w prompt api_key) =
       [HttpPost ?u ?p1, CallGetStockInfo t, HttpPost ?u ?p2]"
      using a g k by simp
    have r: "fst (get_agent_response w prompt api_key) =
       handle (bind_exn (http_json w ?u ?p2) (\<lambda>rf. text_or rf no_formulate_message))"
      using a g k by simp
    show ?thesis
      unfolding ev r
      by (auto simp: text_or_fallback no_formulate_message_def)
  qed
qed



section \<open>Concrete runs\<close>

lemma example_first: "post (example_world a b) u (make_payload (chat_history0 p)) = a"
  by (simp add: example_world_def scripted_post_def make_payload_def chat_history0_def)

lemma example_second: "post (example_world a b) u (make_payload (chat_history0 p @ [x, y])) = b"
  by (simp add: example_world_def scripted_post_def make_payload_def chat_history0_def)

lemma http_json_respond_with:
  "post w u p = respond_with s body \<Longrightarrow> s < 400 \<Longrightarrow> http_json w u p = Inr body"
  by (simp add: http_json_def respond_with_def raise_for_status_def)

lemma part0_response_of_part: "part0 (response_of_part part) = Inr part"
  by (simp add: part0_def content0_def candidate0_def response_of_part_def)

lemma first_text_value:
  assumes "k \<noteq> []"
    and "http_json w (api_url_of k) (make_payload (chat_history0 prompt)) = Inr result"
    and "part0 result = Inr part"
    and "py_get part ''functionCall'' = Inr fc" and "\<not> truthy fc"
    and "py_item part ''text'' = Inr v" and "truthy v"
  shows "get_agent_response w prompt (Some k) =
    (Inr v, [HttpPost (api_url_of k) (make_payload (chat_history0 prompt))])"
proof -
  have fc: "first_part_get result ''functionCall'' = Inr fc"
    using assms(3,4) by (simp add: first_part_get_part0)
  have "text_or result no_clear_message = Inr v"
    using assms(3,6,7) by (rule text_or_text)
  then have "after_first w (api_url_of k) (chat_history0 prompt) result = (Inr v, [])"
    using fc assms(5) by (simp add: after_first_def)
  then show ?thesis
    using assms(1,2) by (simp add: get_agent_response_def agent_try_def Let_def)
qed

lemma first_no_text:
  assumes "k \<noteq> []"
    and "http_json w (api_url_of k) (make_payload (chat_history0 prompt)) = Inr result"
    and "part0 result = Inr part"
    and "py_get part ''functionCall'' = Inr fc" and "\<not> truthy fc"
    and "py_get part ''text'' = Inr c" and "\<not> truthy c"
  shows "get_agent_response w prompt (Some k) =
    (Inr (JStr no_clear_message), [HttpPost (api_url_of k) (make_payload (chat_history0 prompt))])"
proof -
  have fc: "first_part_get result ''functionCall'' = Inr fc"
    using assms(3,4) by (simp add: first_part_get_part0)
  have "text_or result no_clear_message = Inr (JStr no_clear_message)"
    using assms(3,6,7) by (rule text_or_fallback)
  then have "after_first w (api_url_of k) (chat_history0 prompt) result =
      (Inr (JStr no_clear_message), [])"
    using fc assms(5) by (simp add: after_first_def)
  then show ?thesis
    using assms(1,2) by (simp add: get_agent_response_def agent_try_def Let_def)
qed

lemma call_without_args:
  assumes "k \<noteq> []"
    and "http_json w (api_url_of k) (make_payload (chat_history0 prompt)) = Inr result"
    and "part0 result = Inr part"
    and "py_item part ''functionCall'' = Inr function_call"
    and "py_item function_call ''name'' = Inr function_name"
    and "py_item function_call ''args'' = Inl (Exn KeyError m)"
  shows "get_agent_response w prompt (Some k) =
    (Inr (JStr ''An unexpected error occurred.''),
     [HttpPost (api_url_of k) (make_payload (chat_history0 prompt))])"
proof -
  have fc: "first_part_get result ''functionCall'' = Inr function_call"
    using assms(3,4) by (simp add: first_part_get_part0 py_item_get)
  have t: "truthy function_call" using assms(5) by (rule py_item_truthy)
  have "after_first w (api_url_of k) (chat_history0 prompt) result = (Inl (Exn KeyError m), [])"
    using fc t assms(3-6) by (simp add: after_first_def)
  then show ?thesis
    using assms(1,2) by (simp add: get_agent_response_def agent_try_def Let_def)
qed

lemma text_world_first:
  "http_json (text_world t) u (make_payload (chat_history0 p)) =
     Inr (response_of_part (JObj [(''text'', t)]))"
  by (rule http_json_respond_with [where s = 200]) (simp_all add: text_world_def example_first)

lemma tool_world_first:
  "http_json (tool_world second) u (make_payload (chat_history0 p)) =
     Inr (response_of_part (call_of ''get_stock_info'' (JObj [(''ticker'', JStr ''aapl'')])))"
  by (rule http_json_respond_with [where s = 200]) (simp_all add: tool_world_def example_first)

lemma tool_world_second:
  "post (tool_world second) u (make_payload (chat_history0 p @ [x, y])) = second"
  by (simp add: tool_world_def example_second)

lemma key_nonempty: "''key'' \<noteq> []"
  by simp

text \<open>
  A response whose first part holds the number 42 under \<^verbatim>\<open>text\<close>: the orchestrator
  returns the number, which is not a string.
\<close>

theorem respond_always_returns_counterexample:
  "part0 (response_of_part (JObj [(''text'', JInt 42)])) = Inr (JObj [(''text'', JInt 42)]) \<and>
   http_json (text_world (JInt 42)) (api_url_of ''key'') (make_payload (chat_history0 ''hi'')) =
     Inr (response_of_part (JObj [(''text'', JInt 42)])) \<and>
   fst (get_agent_response (text_world (JInt 42)) ''hi'' (Some ''key'')) = Inr (JInt 42) \<and>
   \<not> is_str (JInt 42)"
proof -
  have fc: "py_get (JObj [(''text'', JInt 42)]) ''functionCall'' = Inr JNull" by simp
  have nt: "\<not> truthy JNull" by simp
  have tx: "py_item (JObj [(''text'', JInt 42)]) ''text'' = Inr (JInt 42)" by simp
  have tv: "truthy (JInt 42)" by simp
  have "get_agent_response (text_world (JInt 42)) ''hi'' (Some ''key'') =
    (Inr (JInt 42), [HttpPost (api_url_of ''key'') (make_payload (chat_history0 ''hi''))])"
    by (rule first_text_value [OF key_nonempty text_world_first part0_response_of_part fc nt tx tv])
  then show ?thesis
    by (simp add: part0_response_of_part text_world_first)
qed

theorem respond_always_returns_witness:
  "\<exists>v. fst (get_agent_response answer_world ''price of aapl?'' (Some ''key'')) = Inr v \<and> truthy v \<and>
     (is_str v \<or>
      (\<exists>url payload result.
         HttpPost url payload \<in> set (snd (get_agent_response answer_world ''price of aapl?'' (Some ''key''))) \<and>
         http_json answer_world url payload = Inr result \<and>
         first_part_get result ''text'' = Inr v))"
  by (rule respond_always_returns)

text \<open>
  A response whose first part is the empty text: the orchestrator returns the fallback
  string, not the text.
\<close>

theorem plain_text_returned_counterexample:
  "http_json (text_world (JStr [])) (api_url_of ''key'') (make_payload (chat_history0 ''hi'')) =
     Inr (response_of_part (JObj [(''text'', JStr [])])) \<and>
   part0 (response_of_part (JObj [(''text'', JStr [])])) = Inr (JObj [(''text'', JStr [])]) \<and>
   py_item (JObj [(''text'', JStr [])]) ''text'' = Inr (JStr []) \<and>
   py_get (JObj [(''text'', JStr [])]) ''functionCall'' = Inr JNull \<and>
   fst (get_agent_response (text_world (JStr [])) ''hi'' (Some ''key'')) =
     Inr (JStr (''I couldn'' @ [CHR 0x27] @
       ''t get a clear response from the model. Please try again.''))"
proof -
  have fc: "py_get (JObj [(''text'', JStr [])]) ''functionCall'' = Inr JNull" by simp
  have nt: "\<not> truthy JNull" by simp
  have tx: "py_get (JObj [(''text'', JStr [])]) ''text'' = Inr (JStr [])" by simp
  have tv: "\<not> truthy (JStr [])" by simp
  have "get_agent_response (text_world (JStr [])) ''hi'' (Some ''key'') =
    (Inr (JStr no_clear_message),
     [HttpPost (api_url_of ''key'') (make_payload (chat_history0 ''hi''))])"
    by (rule first_no_text [OF key_nonempty text_world_first part0_response_of_part fc nt tx tv])
  then show ?thesis
    by (simp add: part0_response_of_part text_world_first no_clear_message_def)
qed

theorem plain_text_returned_witness:
  "get_agent_response (text_world (JStr ''Hello'')) ''hi'' (Some ''key'') =
    (Inr (JStr ''Hello''), [HttpPost (api_url_of ''key'') (make_payload (chat_history0 ''hi''))])"
proof -
  have fc: "py_get (JObj [(''text'', JStr ''Hello'')]) ''functionCall'' = Inr JNull" by simp
  have nt: "\<not> truthy JNull" by simp
  have tx: "py_item (JObj [(''text'', JStr ''Hello'')]) ''text'' = Inr (JStr ''Hello'')" by simp
  have ne: "''Hello'' \<noteq> []" by simp
  show ?thesis
    using plain_text_returned
        [OF key_nonempty text_world_first part0_response_of_part fc nt, of "''hi''" "''Hello''"]
      tx ne
    by (simp add: prod_eq_iff)
qed

lemma unknown_tool_first:
  "http_json unknown_tool_world u (make_payload (chat_history0 p)) =
     Inr (response_of_part (call_of ''do_something_else'' (JObj [])))"
  by (rule http_json_respond_with [where s = 200])
     (simp_all add: unknown_tool_world_def example_first)

lemma unknown_tool_no_args_first:
  "http_json unknown_tool_no_args_world u (make_payload (chat_history0 p)) =
     Inr (response_of_part (JObj [(''functionCall'', JObj [(''name'', JStr ''do_something_else'')])]))"
  by (rule http_json_respond_with [where s = 200])
     (simp_all add: unknown_tool_no_args_world_def example_first)

theorem unknown_tool_not_executed_witness:
  "get_agent_response unknown_tool_world ''hi'' (Some ''key'') =
    (Inr (JStr (''Agent tried to call an unknown function: '' @ ''do_something_else'')),
     [HttpPost (api_url_of ''key'') (make_payload (chat_history0 ''hi''))])
   \<and> snd (get_agent_response unknown_tool_no_args_world ''hi'' (Some ''key'')) =
     [HttpPost (api_url_of ''key'') (make_payload (chat_history0 ''hi''))]"
proof -
  have fc: "py_item (call_of ''do_something_else'' (JObj [])) ''functionCall'' =
      Inr (JObj [(''name'', JStr ''do_something_else''), (''args'', JObj [])])"
    by (simp add: call_of_def)
  have nm: "py_item (JObj [(''name'', JStr ''do_something_else''), (''args'', JObj [])]) ''name'' =
      Inr (JStr ''do_something_else'')" by simp
  have ne: "JStr ''do_something_else'' \<noteq> JStr ''get_stock_info''" by simp
  have ar: "py_item (JObj [(''name'', JStr ''do_something_else''), (''args'', JObj [])]) ''args'' =
      Inr (JObj [])" by simp
  have fc2: "py_item (JObj [(''functionCall'', JObj [(''name'', JStr ''do_something_else'')])])
      ''functionCall'' = Inr (JObj [(''name'', JStr ''do_something_else'')])" by simp
  have nm2: "py_item (JObj [(''name'', JStr ''do_something_else'')]) ''name'' =
      Inr (JStr ''do_something_else'')" by simp
  show ?thesis
    using unknown_tool_not_executed
        [OF key_nonempty unknown_tool_first part0_response_of_part fc nm ne,
         of "''hi''" "JObj []" "''do_something_else''"]
      unknown_tool_not_executed
        [OF key_nonempty unknown_tool_no_args_first part0_response_of_part fc2 nm2 ne,
         of "''hi''"]
      ar
    by (simp add: prod_eq_iff)
qed

text \<open>
  A call of an unregistered tool without an \<^verbatim>\<open>args\<close> entry: \<^verbatim>\<open>function_call["args"]\<close> is
  read before the name is compared, the \<^verbatim>\<open>KeyError\<close> reaches the second handler, and the
  returned string does not name the tool.
\<close>

theorem unknown_tool_not_executed_counterexample:
  "http_json unknown_tool_no_args_world (api_url_of ''key'') (make_payload (chat_history0 ''hi'')) =
     Inr (response_of_part (JObj [(''functionCall'', JObj [(''name'', JStr ''do_something_else'')])])) \<and>
   part0 (response_of_part (JObj [(''functionCall'', JObj [(''name'', JStr ''do_something_else'')])])) =
     Inr (JObj [(''functionCall'', JObj [(''name'', JStr ''do_something_else'')])]) \<and>
   py_item (JObj [(''functionCall'', JObj [(''name'', JStr ''do_something_else'')])]) ''functionCall'' =
     Inr (JObj [(''name'', JStr ''do_something_else'')]) \<and>
   py_item (JObj [(''name'', JStr ''do_something_else'')]) ''name'' = Inr (JStr ''do_something_else'') \<and>
   get_agent_response unknown_tool_no_args_world ''hi'' (Some ''key'') =
     (Inr (JStr ''An unexpected error occurred.''),
      [HttpPost (api_url_of ''key'') (make_payload (chat_history0 ''hi''))])"
proof -
  have fc: "py_item (JObj [(''functionCall'', JObj [(''name'', JStr ''do_something_else'')])])
      ''functionCall'' = Inr (JObj [(''name'', JStr ''do_something_else'')])" by simp
  have nm: "py_item (JObj [(''name'', JStr ''do_something_else'')]) ''name'' =
      Inr (JStr ''do_something_else'')" by simp
  have ar: "py_item (JObj [(''name'', JStr ''do_something_else'')]) ''args'' =
      Inl (Exn KeyError ([CHR 0x27] @ ''args'' @ [CHR 0x27]))" by simp
  have "get_agent_response unknown_tool_no_args_world ''hi'' (Some ''key'') =
     (Inr (JStr ''An unexpected error occurred.''),
      [HttpPost (api_url_of ''key'') (make_payload (chat_history0 ''hi''))])"
    by (rule call_without_args
        [OF key_nonempty unknown_tool_no_args_first part0_response_of_part fc nm ar])
  then show ?thesis
    by (simp add: part0_response_of_part unknown_tool_no_args_first)
qed


lemma aapl_call:
  "py_item (call_of ''get_stock_info'' (JObj [(''ticker'', JStr ''aapl'')])) ''functionCall'' =
     Inr (JObj [(''name'', JStr ''get_stock_info''), (''args'', JObj [(''ticker'', JStr ''aapl'')])])"
  by (simp add: call_of_def)

lemma aapl_call_name:
  "py_item (JObj [(''name'', JStr ''get_stock_info''), (''args'', JObj [(''ticker'', JStr ''aapl'')])])
     ''name'' = Inr (JStr ''get_stock_info'')"
  by simp

lemma aapl_call_args:
  "py_item (JObj [(''name'', JStr ''get_stock_info''), (''args'', JObj [(''ticker'', JStr ''aapl'')])])
     ''args'' = Inr (JObj [(''ticker'', JStr ''aapl'')])"
  by simp

lemma aapl_call_ticker: "py_item (JObj [(''ticker'', JStr ''aapl'')]) ''ticker'' = Inr (JStr ''aapl'')"
  by simp

lemma tool_world_run:
  "get_agent_response (tool_world second) prompt (Some ''key'') =
    (handle (bind_exn (http_json (tool_world second) (api_url_of ''key'')
        (make_payload (chat_history0 prompt @
          [model_entry (JObj [(''name'', JStr ''get_stock_info''),
                              (''args'', JObj [(''ticker'', JStr ''aapl'')])]),
           function_entry (json_loads (get_stock_info (tool_world second) (JStr ''aapl'')))])))
         (\<lambda>rf. text_or rf no_formulate_message)),
     [HttpPost (api_url_of ''key'') (make_payload (chat_history0 prompt)),
      CallGetStockInfo (JStr ''aapl''),
      HttpPost (api_url_of ''key'') (make_payload (chat_history0 prompt @
          [model_entry (JObj [(''name'', JStr ''get_stock_info''),
                              (''args'', JObj [(''ticker'', JStr ''aapl'')])]),
           function_entry (json_loads (get_stock_info (tool_world second) (JStr ''aapl'')))]))])"
  by (rule tool_call_events [OF key_nonempty tool_world_first part0_response_of_part
        aapl_call aapl_call_name aapl_call_args py_item_get [OF aapl_call_ticker]])

theorem tool_call_round_trip_witness:
  "snd (get_agent_response answer_world ''price of aapl?'' (Some ''key'')) =
    [HttpPost (api_url_of ''key'')
       (JObj [(''contents'', JArr [
          JObj [(''role'', JStr ''user''), (''parts'', JArr [JObj [(''text'', JStr AGENT_INSTRUCTION)]])],
          JObj [(''role'', JStr ''user''), (''parts'', JArr [JObj [(''text'', JStr ''price of aapl?'')]])]]),
        (''tools'', tools)]),
     CallGetStockInfo (JStr ''aapl''),
     HttpPost (api_url_of ''key'')
       (JObj [(''contents'', JArr [
          JObj [(''role'', JStr ''user''), (''parts'', JArr [JObj [(''text'', JStr AGENT_INSTRUCTION)]])],
          JObj [(''role'', JStr ''user''), (''parts'', JArr [JObj [(''text'', JStr ''price of aapl?'')]])],
          JObj [(''role'', JStr ''model''), (''parts'', JArr [JObj [(''functionCall'',
            JObj [(''name'', JStr ''get_stock_info''), (''args'', JObj [(''ticker'', JStr ''aapl'')])])]])],
          JObj [(''role'', JStr ''function''), (''parts'', JArr [JObj [(''functionResponse'',
            JObj [(''name'', JStr ''get_stock_info''),
                  (''response'', json_loads (get_stock_info answer_world (JStr ''aapl'')))])]])]]),
        (''tools'', tools)])]"
proof -
  have first: "http_json answer_world (api_url_of ''key'') (make_payload (chat_history0 ''price of aapl?'')) =
     Inr (response_of_part (call_of ''get_stock_info'' (JObj [(''ticker'', JStr ''aapl'')])))"
    by (simp add: answer_world_def tool_world_first)
  show ?thesis
    by (rule tool_call_round_trip [OF key_nonempty first part0_response_of_part
          aapl_call aapl_call_name aapl_call_args aapl_call_ticker])
qed

theorem at_most_one_tool_round_witness:
  "fst (get_agent_response chained_tool_world ''price of aapl?'' (Some ''key'')) =
     Inr (JStr (''I received data from the stock tool, but couldn'' @ [CHR 0x27] @
                ''t formulate a clear response.'')) \<and>
   length (filter is_post (snd (get_agent_response chained_tool_world ''price of aapl?'' (Some ''key'')))) = 2 \<and>
   length (filter is_tool_call (snd (get_agent_response chained_tool_world ''price of aapl?'' (Some ''key'')))) = 1"
proof -
  let ?w = "chained_tool_world"
  let ?u = "api_url_of ''key''"
  let ?p1 = "make_payload (chat_history0 ''price of aapl?'')"
  let ?p2 = "make_payload (chat_history0 ''price of aapl?'' @
          [model_entry (JObj [(''name'', JStr ''get_stock_info''),
                              (''args'', JObj [(''ticker'', JStr ''aapl'')])]),
           function_entry (json_loads (get_stock_info ?w (JStr ''aapl'')))])"
  let ?part = "call_of ''get_stock_info'' (JObj [(''ticker'', JStr ''ZZZZ'')])"
  have ev: "snd (get_agent_response ?w ''price of aapl?'' (Some ''key'')) =
      [HttpPost ?u ?p1, CallGetStockInfo (JStr ''aapl''), HttpPost ?u ?p2]"
    unfolding chained_tool_world_def tool_world_run by simp
  have posts: "filter is_post (snd (get_agent_response ?w ''price of aapl?'' (Some ''key''))) =
      [HttpPost ?u ?p1, HttpPost ?u ?p2]"
    unfolding ev by simp
  have second: "http_json ?w ?u ?p2 = Inr (response_of_part ?part)"
    by (rule http_json_respond_with [where s = 200])
       (simp_all add: chained_tool_world_def tool_world_second)
  have fc: "py_item ?part ''functionCall'' =
      Inr (JObj [(''name'', JStr ''get_stock_info''), (''args'', JObj [(''ticker'', JStr ''ZZZZ'')])])"
    by (simp add: call_of_def)
  have tx: "py_get ?part ''text'' = Inr JNull" by (simp add: call_of_def)
  have nt: "\<not> truthy JNull" by simp
  show ?thesis
    using at_most_one_tool_round [of ?w "''price of aapl?''" "Some ''key''" ?u ?p1 ?u ?p2
        "response_of_part ?part" ?part _ JNull]
      posts second part0_response_of_part [of ?part] fc tx nt
    unfolding ev by simp
qed



end
